theory Spec2Isabelle
  imports Complex_Main "HOL-Library.Sublist"
begin

section \<open>Python values, exceptions and pandas containers\<close>

text \<open>
  The helpers of \<^verbatim>\<open>data_helper.py\<close> raise Python exceptions; every raise is a value
  \<open>Inl e\<close> of the result type \<open>error + 'a\<close>.
\<close>

datatype error = TypeError | ValueError | KeyError | AttributeError | IndexError

text \<open>
  A Python float is modelled as an exact rational or NaN (\<open>None\<close>); infinities and
  the rounding error of binary floating point are not modelled. Arithmetic
  propagates NaN and every comparison with NaN is false, as in IEEE 754.
\<close>

type_synonym pyfloat = "rat option"

definition fsub :: "pyfloat \<Rightarrow> pyfloat \<Rightarrow> pyfloat" where
  "fsub a b = (case (a, b) of (Some x, Some y) \<Rightarrow> Some (x - y) | _ \<Rightarrow> None)"

definition fadd :: "pyfloat \<Rightarrow> pyfloat \<Rightarrow> pyfloat" where
  "fadd a b = (case (a, b) of (Some x, Some y) \<Rightarrow> Some (x + y) | _ \<Rightarrow> None)"

definition fmul :: "pyfloat \<Rightarrow> pyfloat \<Rightarrow> pyfloat" where
  "fmul a b = (case (a, b) of (Some x, Some y) \<Rightarrow> Some (x * y) | _ \<Rightarrow> None)"

definition flt :: "pyfloat \<Rightarrow> pyfloat \<Rightarrow> bool" where
  "flt a b = (case (a, b) of (Some x, Some y) \<Rightarrow> x < y | _ \<Rightarrow> False)"

text \<open>
  A Python string object carries its text and whether it is the interned object
  for that text: \<^verbatim>\<open>==\<close> compares texts, \<^verbatim>\<open>is\<close> against a literal of the source
  compares objects, and the literal is interned.
\<close>

datatype pyval =
    PyInt int
  | PyBool bool
  | PyFloat pyfloat
  | PyStr bool string
  | PyNone

fun str_eq :: "pyval \<Rightarrow> string \<Rightarrow> bool" where
  "str_eq (PyStr _ s) lit = (s = lit)"
| "str_eq _ lit = False"

fun str_is :: "pyval \<Rightarrow> string \<Rightarrow> bool" where
  "str_is (PyStr interned s) lit = (interned \<and> s = lit)"
| "str_is _ lit = False"

text \<open>\<^verbatim>\<open>isinstance(v, int)\<close>: \<^verbatim>\<open>bool\<close> is a subclass of \<^verbatim>\<open>int\<close>.\<close>

fun is_int :: "pyval \<Rightarrow> bool" where
  "is_int (PyInt _) = True"
| "is_int (PyBool _) = True"
| "is_int _ = False"

fun is_float :: "pyval \<Rightarrow> bool" where
  "is_float (PyFloat _) = True"
| "is_float _ = False"

text \<open>The numeric value of an \<^verbatim>\<open>int\<close> or \<^verbatim>\<open>float\<close> argument, as numpy broadcasts it.\<close>

fun num_of :: "pyval \<Rightarrow> pyfloat" where
  "num_of (PyInt i) = Some (of_int i)"
| "num_of (PyBool b) = Some (if b then 1 else 0)"
| "num_of (PyFloat f) = f"
| "num_of _ = None"

text \<open>
  The entries of a \<^verbatim>\<open>DatetimeIndex\<close>: \<open>ts_ord\<close> is the instant, the other fields are
  the attributes \<^verbatim>\<open>.month\<close>, \<^verbatim>\<open>.hour\<close> and \<^verbatim>\<open>.weekday\<close> that pandas derives from it.
\<close>

record timestamp =
  ts_ord :: int
  ts_month :: nat
  ts_hour :: nat
  ts_weekday :: nat

definition valid_ts :: "timestamp \<Rightarrow> bool" where
  "valid_ts t = (1 \<le> ts_month t \<and> ts_month t \<le> 12 \<and> ts_hour t < 24 \<and> ts_weekday t < 7)"

datatype index = DatetimeIndex "timestamp list" | OtherIndex "int list"

datatype vals = NumVals "pyfloat list" | ObjVals "string list"

record series =
  s_name :: string
  s_index :: index
  s_values :: vals

fun index_len :: "index \<Rightarrow> nat" where
  "index_len (DatetimeIndex ts) = length ts"
| "index_len (OtherIndex ls) = length ls"











text \<open>
  The numeric columns of a \<^verbatim>\<open>DataFrame\<close>, in column order, under one index. The
  tables of this repository hold numeric sensor columns; a missing cell is NaN.
\<close>

record dataframe =
  df_index :: index
  df_cols :: "(string \<times> pyfloat list) list"

text \<open>What a caller may pass where a Series is expected.\<close>

datatype pyobj = PySeries series | PyDataFrame dataframe | PyOther pyval

section \<open>Rounding\<close>

text \<open>
  Python 3's \<^verbatim>\<open>round(x, 0)\<close> and numpy's \<^verbatim>\<open>round(0)\<close> round to the nearest integer,
  a tie to the even neighbour.
\<close>

definition py_round :: "rat \<Rightarrow> int" where
  "py_round x =
     (let f = \<lfloor>x\<rfloor>; d = x - of_int f
      in if d < 1 / 2 then f
         else if 1 / 2 < d then f + 1
         else if even f then f else f + 1)"

section \<open>split_data\<close>



section \<open>clean_data\<close>

text \<open>
  What \<^verbatim>\<open>clean_data\<close> does besides returning: the line it prints with the two
  bounds, and the call of \<^verbatim>\<open>plot_data\<close> with the title and the horizontal lines
  (the text of the labels is left out).
\<close>

datatype event = PrintBounds pyfloat pyfloat | PlotData string "pyfloat list"

text \<open>Boolean-mask selection \<^verbatim>\<open>data[mask]\<close>: the rows whose mask entry is true, in order.\<close>

fun select :: "bool list \<Rightarrow> 'a list \<Rightarrow> 'a list" where
  "select (b # bs) (x # xs) = (if b then x # select bs xs else select bs xs)"
| "select _ _ = []"

fun index_select :: "bool list \<Rightarrow> index \<Rightarrow> index" where
  "index_select m (DatetimeIndex ts) = DatetimeIndex (select m ts)"
| "index_select m (OtherIndex ls) = OtherIndex (select m ls)"

definition series_mask :: "bool list \<Rightarrow> series \<Rightarrow> pyfloat list \<Rightarrow> series" where
  "series_mask m s v = s\<lparr>s_index := index_select m (s_index s), s_values := NumVals (select m v)\<rparr>"

fun drop_nan :: "pyfloat list \<Rightarrow> rat list" where
  "drop_nan [] = []"
| "drop_nan (None # xs) = drop_nan xs"
| "drop_nan (Some x # xs) = x # drop_nan xs"

text \<open>
  \<^verbatim>\<open>Series.quantile(q)\<close> of pandas with its default linear interpolation, for
  \<open>0 \<le> q \<le> 1\<close>: NaN entries are skipped, the rest sorted, and the value at the
  fractional position \<open>(n - 1) * q\<close> is interpolated between its two neighbours; the
  quantile of no values is NaN.
\<close>

definition quantile :: "pyfloat list \<Rightarrow> rat \<Rightarrow> pyfloat" where
  "quantile v q =
     (let xs = sort (drop_nan v); n = length xs
      in if n = 0 then None
         else
           let h = of_nat (n - 1) * q; lo = nat \<lfloor>h\<rfloor>; hi = min (lo + 1) (n - 1)
           in Some (xs ! lo + (h - of_nat lo) * (xs ! hi - xs ! lo)))"

text \<open>The bounds of the IQR branch, lines 171 to 175.\<close>

definition iqr_bounds :: "pyfloat list \<Rightarrow> pyfloat \<Rightarrow> pyfloat \<times> pyfloat" where
  "iqr_bounds v threshold =
     (let q1 = quantile v (1 / 4);
          q3 = quantile v (3 / 4);
          iqr = fsub q3 q1;
          lower_bound = fsub q1 (fmul threshold iqr);
          upper_bound = fadd q3 (fmul threshold iqr)
      in (lower_bound, upper_bound))"

text \<open>
  \<^verbatim>\<open>clean_data(data, threshold, clean_type, show_plot)\<close>, lines 128 to 188. The
  result is the list of effects and the returned Series. \<^verbatim>\<open>quantile\<close> of a Series
  that is not numeric raises \<^verbatim>\<open>TypeError\<close> inside pandas.
\<close>

definition clean_data :: "pyobj \<Rightarrow> pyval \<Rightarrow> pyval \<Rightarrow> bool \<Rightarrow> error + (event list \<times> series)" where
  "clean_data data threshold clean_type show_plot =
     (if str_eq clean_type ''value'' then
        (case data of
           PySeries s \<Rightarrow>
             (case s_values s of
                NumVals v \<Rightarrow>
                  if \<not> is_int threshold then Inl TypeError
                  else
                    let cleaned_data = series_mask (map (\<lambda>x. flt (num_of threshold) x) v) s v
                    in Inr (if show_plot then [PlotData (s_name s) [num_of threshold]] else [],
                            cleaned_data)
              | ObjVals _ \<Rightarrow> Inl TypeError)
         | _ \<Rightarrow> Inl TypeError)
      else
        (case data of
           PySeries s \<Rightarrow>
             if \<not> is_int threshold \<and> \<not> is_float threshold then Inl TypeError
             else
               (case s_values s of
                  NumVals v \<Rightarrow>
                    let (lower_bound, upper_bound) = iqr_bounds v (num_of threshold);
                        cleaned_data =
                          series_mask (map (\<lambda>x. flt lower_bound x \<and> flt x upper_bound) v) s v
                    in Inr (PrintBounds lower_bound upper_bound #
                              (if show_plot
                               then [PlotData (s_name s) [upper_bound, lower_bound]] else []),
                            cleaned_data)
                | ObjVals _ \<Rightarrow> Inl TypeError)
         | _ \<Rightarrow> Inl TypeError))"

section \<open>decompose_data\<close>

text \<open>
  \<^verbatim>\<open>decompose_data(data, method)\<close>, lines 207 to 235. The three guards are the
  source's; \<^verbatim>\<open>method is not "bfill"\<close> compares objects. What follows the guards
  (\<^verbatim>\<open>fillna\<close>, \<^verbatim>\<open>asfreq\<close> and statsmodels' \<^verbatim>\<open>seasonal_decompose\<close>, lines 222 to
  233) is library code, taken as the parameter \<open>pipeline\<close>, which gets the method's
  text and the Series and may itself raise.
\<close>

definition decompose_data ::
  "(string \<Rightarrow> series \<Rightarrow> error + dataframe) \<Rightarrow> pyobj \<Rightarrow> pyval \<Rightarrow> error + dataframe" where
  "decompose_data pipeline data method =
     (case data of
        PySeries s \<Rightarrow>
          (case s_index s of
             DatetimeIndex _ \<Rightarrow>
               if \<not> str_is method ''bfill'' \<and> \<not> str_is method ''ffill'' then Inl TypeError
               else (case method of PyStr _ m \<Rightarrow> pipeline m s | _ \<Rightarrow> Inl TypeError)
           | OtherIndex _ \<Rightarrow> Inl TypeError)
      | _ \<Rightarrow> Inl TypeError)"

section \<open>create_standard_multivariable_df\<close>

type_synonym cols = "(string \<times> pyfloat list) list"

text \<open>\<^verbatim>\<open>str(n)\<close> of a non-negative integer.\<close>

definition digit_char :: "nat \<Rightarrow> char" where
  "digit_char d = ''0123456789'' ! d"

fun string_of_nat :: "nat \<Rightarrow> string" where
  "string_of_nat n =
     (if n < 10 then [digit_char n] else string_of_nat (n div 10) @ [digit_char (n mod 10)])"

declare string_of_nat.simps [simp del]

text \<open>
  \<^verbatim>\<open>df[name] = v\<close> replaces the column of that label where it stands, or appends a
  new last column; \<^verbatim>\<open>df.rename(columns={old: new}, inplace=True)\<close> relabels and
  ignores a label that is absent.
\<close>

definition set_col :: "string \<Rightarrow> pyfloat list \<Rightarrow> cols \<Rightarrow> cols" where
  "set_col name v cs =
     (if name \<in> set (map fst cs) then map (\<lambda>c. if fst c = name then (name, v) else c) cs
      else cs @ [(name, v)])"

definition rename_col :: "string \<Rightarrow> string \<Rightarrow> cols \<Rightarrow> cols" where
  "rename_col old new cs = map (\<lambda>c. if fst c = old then (new, snd c) else c) cs"

text \<open>The column of a label, all NaN (\<open>n\<close> rows) when no column has it.\<close>

definition column :: "nat \<Rightarrow> cols \<Rightarrow> string \<Rightarrow> pyfloat list" where
  "column n cs name = (case map_of cs name of Some c \<Rightarrow> c | None \<Rightarrow> replicate n None)"

definition clip0 :: "pyfloat \<Rightarrow> pyfloat" where
  "clip0 v = (if flt v (Some 0) then Some 0 else v)"

definition fround :: "pyfloat \<Rightarrow> pyfloat" where
  "fround v = map_option (\<lambda>x. of_int (py_round x)) v"

definition fsquare :: "pyfloat \<Rightarrow> pyfloat" where
  "fsquare v = fmul v v"

text \<open>
  Lines 270 to 280, on a table that has exactly one column \<^verbatim>\<open>OAT\<close>: the degree-day
  columns are computed from the unrounded temperature, the squares from the
  unrounded degree days, and then all five columns are rounded.
\<close>

definition degree_days :: "nat \<Rightarrow> cols \<Rightarrow> cols" where
  "degree_days n cs =
     (let oat = column n cs ''OAT'';
          cdd = map (\<lambda>v. clip0 (fsub v (Some 65))) oat;
          hdd = map (\<lambda>v. clip0 (fsub (Some 65) v)) oat;
          cdd2 = map fsquare cdd;
          hdd2 = map fsquare hdd;
          c1 = set_col ''HDD2'' hdd2 (set_col ''CDD2'' cdd2 (set_col ''HDD'' hdd (set_col ''CDD'' cdd cs)));
          c2 = set_col ''OAT'' (map fround oat) c1;
          c3 = set_col ''CDD'' (map fround cdd) c2;
          c4 = set_col ''HDD'' (map fround hdd) c3;
          c5 = set_col ''CDD2'' (map fround cdd2) c4
      in set_col ''HDD2'' (map fround hdd2) c5)"

text \<open>
  \<^verbatim>\<open>pd.get_dummies(data = df, columns = [col])\<close> on a categorical column whose
  values are \<open>vs\<close>: the other columns stay, and one indicator column
  \<^verbatim>\<open>col_<category>\<close> is added for every value that occurs, in increasing order.
\<close>

definition dummy_name :: "string \<Rightarrow> nat \<Rightarrow> string" where
  "dummy_name col c = col @ ''_'' @ string_of_nat c"

definition indicator :: "nat \<Rightarrow> nat list \<Rightarrow> pyfloat list" where
  "indicator c vs = map (\<lambda>v. Some (if v = c then 1 else 0)) vs"

definition get_dummies :: "string \<Rightarrow> nat list \<Rightarrow> cols \<Rightarrow> cols" where
  "get_dummies col vs cs =
     filter (\<lambda>c. fst c \<noteq> col) cs @
     map (\<lambda>c. (dummy_name col c, indicator c vs)) (sort (remdups vs))"

text \<open>
  \<^verbatim>\<open>.T.reindex(names).T\<close>: the columns with the labels \<open>names\<close>, in that order, a
  label without column giving an all-NaN column; pandas refuses to reindex labels
  that are not unique. Then \<^verbatim>\<open>.fillna(0)\<close>, and \<^verbatim>\<open>drop\<close> of the first column's label.
\<close>

definition reindex_columns :: "string list \<Rightarrow> nat \<Rightarrow> cols \<Rightarrow> error + cols" where
  "reindex_columns names n cs =
     (if \<not> distinct (map fst cs) then Inl ValueError
      else Inr (map (\<lambda>nm. (nm, column n cs nm)) names))"

definition fillna0 :: "cols \<Rightarrow> cols" where
  "fillna0 cs = map (\<lambda>c. (fst c, map (\<lambda>v. case v of None \<Rightarrow> Some 0 | Some x \<Rightarrow> Some x) (snd c))) cs"

definition drop_first_label :: "cols \<Rightarrow> cols" where
  "drop_first_label cs = (case cs of [] \<Rightarrow> [] | c # _ \<Rightarrow> filter (\<lambda>d. fst d \<noteq> fst c) cs)"

text \<open>
  One group of lines 282 to 301: the indicator table of the calendar attribute
  \<open>col\<close> with values \<open>vs\<close>, for the categories \<open>cats\<close>, from the table \<open>cs\<close> that
  already holds the column \<open>col\<close>.
\<close>

definition onehot :: "string \<Rightarrow> nat list \<Rightarrow> nat list \<Rightarrow> nat \<Rightarrow> cols \<Rightarrow> error + cols" where
  "onehot col cats vs n cs =
     (case reindex_columns (map (dummy_name col) cats) n (get_dummies col vs cs) of
        Inl e \<Rightarrow> Inl e
      | Inr d \<Rightarrow> Inr (drop_first_label (fillna0 d)))"

text \<open>Lines 303 to 304.\<close>

definition weekend :: "nat \<Rightarrow> cols \<Rightarrow> pyfloat list" where
  "weekend n dow_df =
     map (\<lambda>(a, b). Some (if a = Some 1 \<or> b = Some 1 then 1 else 0))
       (zip (column n dow_df ''DOW_5'') (column n dow_df ''DOW_6''))"

text \<open>
  \<^verbatim>\<open>df.iloc[:, p]\<close>: the column at position \<open>p\<close>, a negative position counting from
  the last column; \<open>None\<close> is pandas' \<^verbatim>\<open>IndexError\<close>. \<^verbatim>\<open>.shift(k)\<close> moves the
  values \<open>k\<close> rows down and fills the first \<open>k\<close> rows with NaN.
\<close>

definition iloc_col :: "int \<Rightarrow> cols \<Rightarrow> pyfloat list option" where
  "iloc_col p cs =
     (let m = int (length cs); j = (if p < 0 then m + p else p)
      in if 0 \<le> j \<and> j < m then Some (snd (cs ! nat j)) else None)"

definition shift_by :: "nat \<Rightarrow> pyfloat list \<Rightarrow> pyfloat list" where
  "shift_by k c = replicate (min k (length c)) None @ take (length c - k) c"

text \<open>
  The loop of lines 306 to 308 over the values \<open>i\<close> of \<^verbatim>\<open>range(shift)\<close>; it returns
  the columns as they are when it stops, and the exception if it stopped on one.
\<close>

fun shift_loop :: "int \<Rightarrow> nat list \<Rightarrow> cols \<Rightarrow> cols \<times> error option" where
  "shift_loop p [] cs = (cs, None)"
| "shift_loop p (i # is) cs =
     (case iloc_col p cs of
        None \<Rightarrow> (cs, Some IndexError)
      | Some c \<Rightarrow> shift_loop p is (set_col (''SHIFT_'' @ string_of_nat (i + 1)) (shift_by (i + 1) c) cs))"

text \<open>\<^verbatim>\<open>df.dropna()\<close>: the rows in which no column is NaN.\<close>

definition row_complete :: "cols \<Rightarrow> nat \<Rightarrow> bool" where
  "row_complete cs i = list_all (\<lambda>c. snd c ! i \<noteq> None) cs"

definition dropna_rows :: "dataframe \<Rightarrow> dataframe" where
  "dropna_rows d =
     (let m = map (row_complete (df_cols d)) [0..<index_len (df_index d)]
      in \<lparr>df_index = index_select m (df_index d),
          df_cols = map (\<lambda>c. (fst c, select m (snd c))) (df_cols d)\<rparr>)"

definition month_cats :: "nat list" where "month_cats = [1..<13]"
definition tod_cats :: "nat list" where "tod_cats = [0..<24]"
definition dow_cats :: "nat list" where "dow_cats = [0..<7]"

definition nat_col :: "nat list \<Rightarrow> pyfloat list" where
  "nat_col vs = map (\<lambda>v. Some (of_nat v)) vs"

text \<open>Lines 267 to 268: the columns after the optional renaming.\<close>

definition base_cols :: "bool \<Rightarrow> dataframe \<Rightarrow> cols" where
  "base_cols rename_OAT df =
     (if rename_OAT then rename_col ''aiTIT4045'' ''OAT'' (df_cols df) else df_cols df)"

text \<open>
  \<^verbatim>\<open>create_standard_multivariable_df(df, point_location, shift, rename_OAT, dropna)\<close>,
  lines 249 to 323. The function works on the caller's table in place until line
  314 binds \<^verbatim>\<open>df\<close> to a new table, so the model returns the caller's table as the
  call leaves it, and the exception or the returned table. \<^verbatim>\<open>df.OAT\<close> raises
  \<^verbatim>\<open>AttributeError\<close> when no column has the label, and is a table that cannot be
  assigned to one column (\<^verbatim>\<open>ValueError\<close>) when two have it; \<^verbatim>\<open>df.index.month\<close>
  raises \<^verbatim>\<open>AttributeError\<close> on an index that holds no timestamps.
\<close>

definition create_standard_multivariable_df ::
  "dataframe \<Rightarrow> int \<Rightarrow> int \<Rightarrow> bool \<Rightarrow> bool \<Rightarrow> dataframe \<times> (error + dataframe)" where
  "create_standard_multivariable_df df point_location shift rename_OAT dropna =
     (let ix = df_index df;
          n = index_len ix;
          c0 = base_cols rename_OAT df;
          n_oat = count_list (map fst c0) ''OAT''
      in if n_oat = 0 then (df\<lparr>df_cols := c0\<rparr>, Inl AttributeError)
         else if 1 < n_oat then (df\<lparr>df_cols := c0\<rparr>, Inl ValueError)
         else
           let c1 = degree_days n c0
           in (case ix of
                 OtherIndex _ \<Rightarrow> (df\<lparr>df_cols := c1\<rparr>, Inl AttributeError)
               | DatetimeIndex ts \<Rightarrow>
                   let c2 = set_col ''MONTH'' (nat_col (map ts_month ts)) c1
                   in (case onehot ''MONTH'' month_cats (map ts_month ts) n c2 of
                         Inl e \<Rightarrow> (df\<lparr>df_cols := c2\<rparr>, Inl e)
                       | Inr month_df \<Rightarrow>
                           let c3 = set_col ''TOD'' (nat_col (map ts_hour ts)) c2
                           in (case onehot ''TOD'' tod_cats (map ts_hour ts) n c3 of
                                 Inl e \<Rightarrow> (df\<lparr>df_cols := c3\<rparr>, Inl e)
                               | Inr tod_df \<Rightarrow>
                                   let c4 = set_col ''DOW'' (nat_col (map ts_weekday ts)) c3
                                   in (case onehot ''DOW'' dow_cats (map ts_weekday ts) n c4 of
                                         Inl e \<Rightarrow> (df\<lparr>df_cols := c4\<rparr>, Inl e)
                                       | Inr dow_df \<Rightarrow>
                                           let c5 = set_col ''WEEKEND'' (weekend n dow_df) c4;
                                               (c6, err) = shift_loop point_location [0..<nat shift] c5
                                           in (case err of
                                                 Some e \<Rightarrow> (df\<lparr>df_cols := c6\<rparr>, Inl e)
                                               | None \<Rightarrow>
                                                   let joined = c6 @ month_df @ tod_df @ dow_df;
                                                       kept = filter (\<lambda>c. fst c \<notin> {''MONTH'', ''TOD'', ''DOW''}) joined;
                                                       out = \<lparr>df_index = ix, df_cols = kept\<rparr>
                                                   in (df\<lparr>df_cols := c6\<rparr>,
                                                       Inr (if dropna then dropna_rows out else out))))))))"

text \<open>
  A table is well formed when its column labels are unique and every column is as
  long as the index.
\<close>

definition wf_df :: "dataframe \<Rightarrow> bool" where
  "wf_df d =
     (distinct (map fst (df_cols d)) \<and>
      list_all (\<lambda>c. length (snd c) = index_len (df_index d)) (df_cols d))"

section \<open>Fixtures\<close>

text \<open>The Series of the specification's quartile example.\<close>

definition s6 :: series where
  "s6 = \<lparr>s_name = ''kW'', s_index = OtherIndex [0, 1, 2, 3, 4, 5],
         s_values = NumVals [Some 1, Some 2, Some 3, Some 4, Some 5, Some 100]\<rparr>"


text \<open>The six-point Series without its outlier.\<close>

definition r5 :: series where
  "r5 = \<lparr>s_name = ''kW'', s_index = OtherIndex [0, 1, 2, 3, 4],
         s_values = NumVals [Some 1, Some 2, Some 3, Some 4, Some 5]\<rparr>"






text \<open>
  One-row tables: one without a temperature column, and one with it, before and
  after a call that stops in the lag loop.
\<close>

definition no_oat :: dataframe where
  "no_oat =
     \<lparr>df_index = DatetimeIndex [\<lparr>ts_ord = 0, ts_month = 1, ts_hour = 0, ts_weekday = 0\<rparr>],
      df_cols = [(''kW'', [Some 3])]\<rparr>"

definition one_row :: dataframe where
  "one_row =
     \<lparr>df_index = DatetimeIndex [\<lparr>ts_ord = 0, ts_month = 1, ts_hour = 0, ts_weekday = 0\<rparr>],
      df_cols = [(''aiTIT4045'', [Some 70])]\<rparr>"

definition one_row_touched :: dataframe where
  "one_row_touched =
     \<lparr>df_index = DatetimeIndex [\<lparr>ts_ord = 0, ts_month = 1, ts_hour = 0, ts_weekday = 0\<rparr>],
      df_cols = [(''OAT'', [Some 70]), (''CDD'', [Some 5]), (''HDD'', [Some 0]),
                 (''CDD2'', [Some 25]), (''HDD2'', [Some 0]), (''MONTH'', [Some 1]),
                 (''TOD'', [Some 0]), (''DOW'', [Some 0]), (''WEEKEND'', [Some 0])]\<rparr>"

section \<open>Facts about rounding and slicing\<close>










lemma py_round_eqI:
  assumes "of_int z - 1 / 2 < x" and "x < of_int z + 1 / 2"
  shows "py_round x = z"
proof -
  have a: "of_int \<lfloor>x\<rfloor> \<le> x" and b: "x < of_int \<lfloor>x\<rfloor> + 1"
    by linarith+
  have "rat_of_int \<lfloor>x\<rfloor> < of_int z + 1 / 2" using a assms(2) by linarith
  then have "rat_of_int \<lfloor>x\<rfloor> < of_int (z + 1)" by simp
  then have "\<lfloor>x\<rfloor> < z + 1" by (simp only: of_int_less_iff)
  then have c: "\<lfloor>x\<rfloor> \<le> z" by linarith
  have "rat_of_int z - 3 / 2 < of_int \<lfloor>x\<rfloor>" using b assms(1) by linarith
  then have "rat_of_int (z - 2) < of_int \<lfloor>x\<rfloor>" by simp
  then have "z - 2 < \<lfloor>x\<rfloor>" by (simp only: of_int_less_iff)
  then have d: "z - 1 \<le> \<lfloor>x\<rfloor>" by linarith
  from c d consider "\<lfloor>x\<rfloor> = z" | "\<lfloor>x\<rfloor> = z - 1" by linarith
  then show ?thesis
  proof cases
    case 1
    then show ?thesis using assms by (simp add: py_round_def Let_def)
  next
    case 2
    then have "1 / 2 < x - of_int \<lfloor>x\<rfloor>" using assms(1) by simp
    then show ?thesis using 2 by (simp add: py_round_def Let_def)
  qed
qed

lemma py_round_of_int: "py_round (of_int z) = z"
  by (rule py_round_eqI) simp_all

lemma py_round_nearest: "\<bar>of_int (py_round x) - x\<bar> \<le> 1 / 2"
proof -
  have a: "of_int \<lfloor>x\<rfloor> \<le> x" and b: "x < of_int \<lfloor>x\<rfloor> + 1"
    by linarith+
  show ?thesis using a b by (auto simp: py_round_def Let_def)
qed


section \<open>Facts about selection and quantiles\<close>

lemma floor_rat_numeral_div:
  "\<lfloor>numeral a / numeral b :: rat\<rfloor> = numeral a div numeral b"
  using floor_divide_of_int_eq [of "numeral a" "numeral b", where ?'a = rat] by simp

lemma quantile_s6_q1: "quantile [Some 1, Some 2, Some 3, Some 4, Some 5, Some 100] (1/4) = Some (9/4)"
  by (simp add: quantile_def Let_def floor_rat_numeral_div)
lemma quantile_s6_q3: "quantile [Some 1, Some 2, Some 3, Some 4, Some 5, Some 100] (3/4) = Some (19/4)"
  by (simp add: quantile_def Let_def floor_rat_numeral_div)

lemma select_map_filter: "select (map P xs) xs = filter P xs"
  by (induction xs) auto

lemma subseq_select: "subseq (select m xs) xs"
  by (induction m xs rule: select.induct) auto

lemma length_select_le: "length (select m xs) \<le> length xs"
  by (induction m xs rule: select.induct) auto

lemma select_zip:
  "select m (zip xs ys) = zip (select m xs) (select m ys)"
  by (induction m xs arbitrary: ys rule: select.induct) (auto simp: zip_Cons1 split: list.splits)

lemma iqr_bounds_s6:
  "iqr_bounds [Some 1, Some 2, Some 3, Some 4, Some 5, Some 100] (Some (3 / 2)) =
     (Some (- (3 / 2)), Some (17 / 2))"
  by (simp add: iqr_bounds_def quantile_s6_q1 quantile_s6_q3 fsub_def fadd_def fmul_def)

lemma iqr_bounds_s6_2:
  "iqr_bounds [Some 1, Some 2, Some 3, Some 4, Some 5, Some 100] (Some 2) =
     (Some (- (11 / 4)), Some (39 / 4))"
  by (simp add: iqr_bounds_def quantile_s6_q1 quantile_s6_q3 fsub_def fadd_def fmul_def)


section \<open>Splitting\<close>





section \<open>Cleaning\<close>

text \<open>
  Claim C3. For every numeric Series \<open>S\<close> and every integer threshold \<open>t\<close>, cleaning
  with the tag \<^verbatim>\<open>value\<close> returns the Series of the elements of \<open>S\<close> strictly greater
  than \<open>t\<close>, under the index entries of these elements: a subsequence of \<open>S\<close> in the
  order of \<open>S\<close>, nothing filled in. A threshold that is no \<^verbatim>\<open>int\<close> fails with
  \<^verbatim>\<open>TypeError\<close>.
\<close>

theorem clean_data_value:
  assumes "s_values S = NumVals v"
  shows "(\<exists>evs R.
            clean_data (PySeries S) (PyInt t) (PyStr i ''value'') show_plot = Inr (evs, R) \<and>
            s_name R = s_name S \<and>
            s_values R = NumVals (filter (\<lambda>x. flt (Some (of_int t)) x) v) \<and>
            s_index R = index_select (map (\<lambda>x. flt (Some (of_int t)) x) v) (s_index S) \<and>
            subseq (filter (\<lambda>x. flt (Some (of_int t)) x) v) v) \<and>
         (\<not> is_int th \<longrightarrow>
            clean_data (PySeries S) th (PyStr i ''value'') show_plot = Inl TypeError)"
  using assms by (simp add: clean_data_def series_mask_def select_map_filter Let_def)

text \<open>The theorem at the six-point Series with the thresholds 2 and 2.5.\<close>

theorem clean_data_value_witness:
  "(\<exists>evs R.
      clean_data (PySeries s6) (PyInt 2) (PyStr True ''value'') False = Inr (evs, R) \<and>
      s_values R = NumVals [Some 3, Some 4, Some 5, Some 100] \<and>
      s_index R = OtherIndex [2, 3, 4, 5]) \<and>
   clean_data (PySeries s6) (PyFloat (Some (5 / 2))) (PyStr True ''value'') False = Inl TypeError"
proof -
  have v: "s_values s6 = NumVals [Some 1, Some 2, Some 3, Some 4, Some 5, Some 100]"
    by (simp add: s6_def)
  have i: "s_index s6 = OtherIndex [0, 1, 2, 3, 4, 5]"
    by (simp add: s6_def)
  from clean_data_value [OF v, of 2 True False "PyFloat (Some (5 / 2))"]
  show ?thesis by (auto simp: flt_def i)
qed



text \<open>
  Claim C8 as stated has the bounds in the return value. Two calls on the
  six-point Series, with the multipliers 1.5 and 2, print different bounds and
  return the same Series: the return value does not tell the bounds.
\<close>

theorem clean_data_bounds_counterexample:
  "clean_data (PySeries s6) (PyFloat (Some (3 / 2))) (PyStr True ''iqr'') False =
     Inr ([PrintBounds (Some (- (3 / 2))) (Some (17 / 2))], r5) \<and>
   clean_data (PySeries s6) (PyInt 2) (PyStr True ''iqr'') False =
     Inr ([PrintBounds (Some (- (11 / 4))) (Some (39 / 4))], r5)"
  by (simp add: clean_data_def s6_def r5_def iqr_bounds_s6 iqr_bounds_s6_2 series_mask_def
      flt_def)

text \<open>
  Claim C8, amended. For every numeric Series cleaned with the IQR policy, the
  lower and the upper bound are printed, and drawn as horizontal lines when
  \<^verbatim>\<open>show_plot\<close> is set; the return value is the cleaned Series alone.
\<close>

theorem clean_data_iqr_reports:
  assumes "s_values S = NumVals v" and "is_int m \<or> is_float m"
    and "\<not> str_eq clean_type ''value''"
  shows "\<exists>R. clean_data (PySeries S) m clean_type show_plot =
             Inr (PrintBounds (fst (iqr_bounds v (num_of m))) (snd (iqr_bounds v (num_of m))) #
                    (if show_plot
                     then [PlotData (s_name S)
                             [snd (iqr_bounds v (num_of m)), fst (iqr_bounds v (num_of m))]]
                     else []),
                  R) \<and>
             s_name R = s_name S \<and>
             s_values R =
               NumVals (filter (\<lambda>x. flt (fst (iqr_bounds v (num_of m))) x \<and>
                                     flt x (snd (iqr_bounds v (num_of m)))) v) \<and>
             s_index R =
               index_select (map (\<lambda>x. flt (fst (iqr_bounds v (num_of m))) x \<and>
                                       flt x (snd (iqr_bounds v (num_of m)))) v) (s_index S)"
  using assms
  by (auto simp: clean_data_def series_mask_def select_map_filter Let_def split: prod.splits)

text \<open>The theorem at the six-point Series with the multiplier 2 and the plot.\<close>

theorem clean_data_iqr_reports_witness:
  "\<exists>R. clean_data (PySeries s6) (PyInt 2) (PyStr True ''iqr'') True =
          Inr ([PrintBounds (Some (- (11 / 4))) (Some (39 / 4)),
                PlotData ''kW'' [Some (39 / 4), Some (- (11 / 4))]], R) \<and>
        s_values R = NumVals [Some 1, Some 2, Some 3, Some 4, Some 5]"
proof -
  have v: "s_values s6 = NumVals [Some 1, Some 2, Some 3, Some 4, Some 5, Some 100]"
    by (simp add: s6_def)
  have n: "s_name s6 = ''kW''" by (simp add: s6_def)
  have f: "is_int (PyInt 2) \<or> is_float (PyInt 2)" by simp
  have t: "\<not> str_eq (PyStr True ''iqr'') ''value''" by simp
  from clean_data_iqr_reports [OF v f t, of True]
  show ?thesis
    by (auto simp: iqr_bounds_s6_2 flt_def n)
qed



section \<open>Decomposition\<close>

text \<open>
  Claim C7 as stated asks for a value error on a fill method other than
  \<^verbatim>\<open>bfill\<close> and \<^verbatim>\<open>ffill\<close>; line 219 raises \<^verbatim>\<open>TypeError\<close>, here for the method
  \<^verbatim>\<open>linear\<close> on an empty time-indexed Series.
\<close>

theorem decompose_data_bad_method_counterexample:
  "decompose_data (\<lambda>m s. Inr \<lparr>df_index = s_index s, df_cols = []\<rparr>)
     (PySeries \<lparr>s_name = ''kW'', s_index = DatetimeIndex [], s_values = NumVals []\<rparr>)
     (PyStr True ''linear'') = Inl TypeError \<and>
   decompose_data (\<lambda>m s. Inr \<lparr>df_index = s_index s, df_cols = []\<rparr>)
     (PySeries \<lparr>s_name = ''kW'', s_index = DatetimeIndex [], s_values = NumVals []\<rparr>)
     (PyStr True ''linear'') \<noteq> Inl ValueError"
  by (simp add: decompose_data_def)

text \<open>
  Claim C7, amended. With a method whose text is neither \<^verbatim>\<open>bfill\<close> nor \<^verbatim>\<open>ffill\<close>,
  \<^verbatim>\<open>decompose_data\<close> fails with \<^verbatim>\<open>TypeError\<close> whatever the data and whatever the
  library pipeline would compute: nothing is computed on the Series.
\<close>

theorem decompose_data_bad_method:
  assumes "\<not> str_eq meth ''bfill''" and "\<not> str_eq meth ''ffill''"
  shows "decompose_data pipeline data meth = Inl TypeError"
proof -
  have "\<not> str_is meth ''bfill''" "\<not> str_is meth ''ffill''"
    using assms by (cases meth; simp)+
  then show ?thesis
    by (simp add: decompose_data_def split: pyobj.splits index.splits)
qed

text \<open>The theorem at the method \<^verbatim>\<open>linear\<close>.\<close>

theorem decompose_data_bad_method_witness:
  "\<not> str_eq (PyStr True ''linear'') ''bfill'' \<and> \<not> str_eq (PyStr True ''linear'') ''ffill'' \<and>
   decompose_data (\<lambda>m s. Inr \<lparr>df_index = s_index s, df_cols = []\<rparr>)
     (PySeries \<lparr>s_name = ''kW'', s_index = DatetimeIndex [], s_values = NumVals []\<rparr>)
     (PyStr True ''linear'') = Inl TypeError"
  using decompose_data_bad_method [of "PyStr True ''linear''"
      "\<lambda>m s. Inr \<lparr>df_index = s_index s, df_cols = []\<rparr>"
      "PySeries \<lparr>s_name = ''kW'', s_index = DatetimeIndex [], s_values = NumVals []\<rparr>"]
  by simp


section \<open>Facts about columns and indicator tables\<close>

lemma map_of_replace:
  "map_of (map (\<lambda>c. if fst c = name then (name, v) else c) cs) k =
     (if k = name then (if name \<in> fst ` set cs then Some v else None) else map_of cs k)"
proof (induction cs)
  case Nil
  then show ?case by simp
next
  case (Cons c cs)
  have m: "\<And>b. (name, b) \<in> set cs \<Longrightarrow> name \<in> fst ` set cs" by force
  show ?case using Cons by (auto dest: m)
qed

lemma map_of_set_col:
  "map_of (set_col name v cs) k = (if k = name then Some v else map_of cs k)"
proof (cases "name \<in> set (map fst cs)")
  case True
  then show ?thesis
    unfolding set_col_def by (simp add: map_of_replace)
next
  case False
  then have "map_of cs name = None" by (simp add: map_of_eq_None_iff)
  then show ?thesis
    using False unfolding set_col_def by (auto simp: map_add_def split: option.splits)
qed

lemma column_set_col:
  "column n (set_col name v cs) k = (if k = name then v else column n cs k)"
  by (simp add: column_def map_of_set_col)

lemma names_set_col:
  "map fst (set_col name v cs) =
     (if name \<in> set (map fst cs) then map fst cs else map fst cs @ [name])"
  unfolding set_col_def by (induction cs) auto

lemma set_names_set_col:
  "fst ` set (set_col name v cs) = insert name (fst ` set cs)"
  using names_set_col [of name v cs, THEN arg_cong, of set] by (auto split: if_splits)

lemma distinct_set_col:
  "distinct (map fst cs) \<Longrightarrow> distinct (map fst (set_col name v cs))"
  by (simp add: names_set_col)

lemma length_set_col:
  "length cs \<le> length (set_col name v cs)"
  by (simp add: set_col_def)


lemma set_names_degree_days:
  "fst ` set (degree_days n cs) =
     fst ` set cs \<union> {''OAT'', ''CDD'', ''HDD'', ''CDD2'', ''HDD2''}"
  by (auto simp: degree_days_def Let_def set_names_set_col)

lemma distinct_degree_days:
  "distinct (map fst cs) \<Longrightarrow> distinct (map fst (degree_days n cs))"
  by (simp add: degree_days_def Let_def distinct_set_col)

lemma map_of_filter_names:
  "map_of (filter (\<lambda>c. fst c \<notin> A) cs) k = (if k \<in> A then None else map_of cs k)"
  by (induction cs) auto


lemma shift_loop_names:
  assumes "shift_loop p js cs = (cs', e)"
  shows "fst ` set cs' \<subseteq> fst ` set cs \<union> {''SHIFT_'' @ string_of_nat (i + 1) | i. i \<in> set js}"
  using assms
proof (induction p js cs rule: shift_loop.induct)
  case (1 p cs)
  then show ?case by auto
next
  case (2 p i js cs)
  show ?case
  proof (cases "iloc_col p cs")
    case None
    then show ?thesis using 2 by auto
  next
    case (Some c)
    then have "shift_loop p js (set_col (''SHIFT_'' @ string_of_nat (i + 1)) (shift_by (i + 1) c) cs) = (cs', e)"
      using 2(2) by simp
    from 2(1) [OF Some this] show ?thesis
      by (auto simp: set_names_set_col)
  qed
qed

lemma shift_loop_distinct:
  assumes "shift_loop p js cs = (cs', e)" and "distinct (map fst cs)"
  shows "distinct (map fst cs')"
  using assms
  by (induction p js cs rule: shift_loop.induct)
     (auto simp: distinct_set_col split: option.splits)

lemma digit_char_inj:
  assumes "a < 10" and "b < 10" and "digit_char a = digit_char b"
  shows "a = b"
proof -
  have d: "distinct ''0123456789''" by simp
  have l: "length ''0123456789'' = 10" by simp
  show ?thesis
    using assms nth_eq_iff_index_eq [OF d, of a b] unfolding digit_char_def l by simp
qed

lemma string_of_nat_nonempty: "string_of_nat n \<noteq> []"
  by (subst string_of_nat.simps) simp

lemma string_of_nat_inj: "string_of_nat a = string_of_nat b \<Longrightarrow> a = b"
proof (induction a arbitrary: b rule: string_of_nat.induct)
  case (1 a)
  show ?case
  proof (cases "a < 10")
    case a: True
    show ?thesis
    proof (cases "b < 10")
      case True
      then show ?thesis
        using a 1(2) digit_char_inj
        by (subst (asm) string_of_nat.simps, subst (asm) (2) string_of_nat.simps) simp
    next
      case False
      then have "string_of_nat b = string_of_nat (b div 10) @ [digit_char (b mod 10)]"
        by (subst string_of_nat.simps) simp
      moreover have "string_of_nat a = [digit_char a]"
        using a by (subst string_of_nat.simps) simp
      ultimately show ?thesis
        using 1(2) string_of_nat_nonempty [of "b div 10"] by simp
    qed
  next
    case a: False
    then have ea: "string_of_nat a = string_of_nat (a div 10) @ [digit_char (a mod 10)]"
      by (subst string_of_nat.simps) simp
    show ?thesis
    proof (cases "b < 10")
      case True
      then have "string_of_nat b = [digit_char b]"
        by (subst string_of_nat.simps) simp
      then show ?thesis
        using 1(2) ea string_of_nat_nonempty [of "a div 10"] by simp
    next
      case False
      then have eb: "string_of_nat b = string_of_nat (b div 10) @ [digit_char (b mod 10)]"
        by (subst string_of_nat.simps) simp
      from 1(2) ea eb have p: "string_of_nat (a div 10) = string_of_nat (b div 10)"
        and d: "digit_char (a mod 10) = digit_char (b mod 10)" by simp_all
      from 1(1) [OF a p] have "a div 10 = b div 10" .
      moreover from d have "a mod 10 = b mod 10"
        by (intro digit_char_inj) simp_all
      ultimately show ?thesis
        by (metis div_mult_mod_eq)
    qed
  qed
qed

lemma dummy_name_inj: "dummy_name col a = dummy_name col b \<longleftrightarrow> a = b"
  by (auto simp: dummy_name_def dest: string_of_nat_inj)

lemma inj_on_dummy_name: "inj_on (dummy_name col) A"
  by (simp add: inj_on_def dummy_name_inj)

lemma map_of_dummies:
  "map_of (map (\<lambda>c. (dummy_name col c, f c)) ks) (dummy_name col k) =
     (if k \<in> set ks then Some (f k) else None)"
  by (induction ks) (auto simp: dummy_name_inj)

lemma map_of_absent: "k \<notin> fst ` set cs \<Longrightarrow> map_of cs k = None"
  by (simp add: map_of_eq_None_iff)

lemma indicator_absent:
  "k \<notin> set vs \<Longrightarrow> indicator k vs = replicate (length vs) (Some 0)"
  by (induction vs) (auto simp: indicator_def)

lemma fill_indicator:
  "map (\<lambda>v. case v of None \<Rightarrow> Some 0 | Some x \<Rightarrow> Some x) (indicator k vs) = indicator k vs"
  by (simp add: indicator_def)

lemma fill_nan_column:
  "map (\<lambda>v. case v of None \<Rightarrow> Some 0 | Some x \<Rightarrow> Some x) (replicate n (None :: pyfloat)) =
     replicate n (Some 0)"
  by simp

lemma get_dummies_column:
  assumes "dummy_name col k \<notin> fst ` set cs"
  shows "column (length vs) (get_dummies col vs cs) (dummy_name col k) =
           (if k \<in> set vs then indicator k vs else replicate (length vs) None)"
proof -
  have "map_of (filter (\<lambda>c. fst c \<noteq> col) cs) (dummy_name col k) = None"
    using assms by (intro map_of_absent) auto
  then show ?thesis
    by (simp add: column_def get_dummies_def map_add_def map_of_dummies)
qed

lemma onehot_fresh:
  assumes ok: "onehot col cats vs n cs = Inr r"
    and len: "length vs = n"
    and fresh: "\<forall>k\<in>set cats. dummy_name col k \<notin> fst ` set cs"
    and dist: "distinct cats"
  shows "r = map (\<lambda>k. (dummy_name col k, indicator k vs)) (tl cats)"
proof -
  define G where "G = get_dummies col vs cs"
  from ok have r: "r = drop_first_label (fillna0 (map (\<lambda>nm. (nm, column n G nm)) (map (dummy_name col) cats)))"
    by (auto simp: onehot_def reindex_columns_def G_def split: if_splits)
  have c: "\<And>k. k \<in> set cats \<Longrightarrow>
      map (\<lambda>v. case v of None \<Rightarrow> Some 0 | Some x \<Rightarrow> Some x) (column n G (dummy_name col k)) =
        indicator k vs"
    using fresh len get_dummies_column [of col _ cs vs]
    by (auto simp: G_def fill_indicator indicator_absent)
  have f: "fillna0 (map (\<lambda>nm. (nm, column n G nm)) (map (dummy_name col) cats)) =
             map (\<lambda>k. (dummy_name col k, indicator k vs)) cats"
    using c by (simp add: fillna0_def o_def)
  show ?thesis
  proof (cases cats)
    case Nil
    then show ?thesis by (simp add: r drop_first_label_def fillna0_def)
  next
    case (Cons a ks)
    then have "a \<notin> set ks" using dist by simp
    then have "filter (\<lambda>d. fst d \<noteq> dummy_name col a)
                 (map (\<lambda>k. (dummy_name col k, indicator k vs)) ks) =
               map (\<lambda>k. (dummy_name col k, indicator k vs)) ks"
      by (induction ks) (auto simp: dummy_name_inj)
    then show ?thesis
      unfolding r f by (simp add: Cons drop_first_label_def)
  qed
qed






lemma not_shift_name:
  "''CDD'' \<noteq> ''SHIFT_'' @ s" "''HDD'' \<noteq> ''SHIFT_'' @ s"
  "''CDD2'' \<noteq> ''SHIFT_'' @ s" "''HDD2'' \<noteq> ''SHIFT_'' @ s"
  by simp_all




lemma py_round_zero: "py_round 0 = 0"
  using py_round_of_int [of 0] by simp

lemma rename_col_absent: "old \<notin> fst ` set cs \<Longrightarrow> rename_col old new cs = cs"
  unfolding rename_col_def by (induction cs) auto

lemma count_list_absent: "x \<notin> set xs \<Longrightarrow> count_list xs x = 0"
  by (induction xs) auto

lemma bad_point_location_mutates:
  "create_standard_multivariable_df one_row 9 1 True True = (one_row_touched, Inl IndexError)"
  by code_simp

section \<open>Feature building\<close>



text \<open>
  Claim C6 as stated asks for a key error when the base column is absent. On a
  table without temperature column the call raises \<^verbatim>\<open>AttributeError\<close>, from the
  attribute access \<^verbatim>\<open>df.OAT\<close> of line 270.
\<close>

theorem missing_oat_counterexample:
  "create_standard_multivariable_df no_oat 0 1 True True = (no_oat, Inl AttributeError) \<and>
   snd (create_standard_multivariable_df no_oat 0 1 True True) \<noteq> Inl KeyError"
  by (simp add: create_standard_multivariable_df_def no_oat_def base_cols_def rename_col_def)

text \<open>
  Claim C6, amended. When the table has no column \<^verbatim>\<open>OAT\<close>, and no column
  \<^verbatim>\<open>aiTIT4045\<close> to be renamed to it, the call fails with \<^verbatim>\<open>AttributeError\<close>,
  returns no table and leaves the caller's table as it was.
\<close>

theorem missing_oat:
  assumes "''OAT'' \<notin> fst ` set (df_cols df)"
    and "rename_OAT \<longrightarrow> ''aiTIT4045'' \<notin> fst ` set (df_cols df)"
  shows "create_standard_multivariable_df df point_location shift rename_OAT dropna =
           (df, Inl AttributeError)"
proof -
  have b: "base_cols rename_OAT df = df_cols df"
    using assms(2) by (simp add: base_cols_def rename_col_absent)
  have "count_list (map fst (df_cols df)) ''OAT'' = 0"
    using assms(1) by (intro count_list_absent) simp
  then show ?thesis
    by (simp add: create_standard_multivariable_df_def b)
qed

text \<open>The theorem at the one-row table without temperature column.\<close>

theorem missing_oat_witness:
  "''OAT'' \<notin> fst ` set (df_cols no_oat) \<and> ''aiTIT4045'' \<notin> fst ` set (df_cols no_oat) \<and>
   create_standard_multivariable_df no_oat 0 1 True True = (no_oat, Inl AttributeError)"
proof -
  have a: "''OAT'' \<notin> fst ` set (df_cols no_oat)" by (simp add: no_oat_def)
  have b: "True \<longrightarrow> ''aiTIT4045'' \<notin> fst ` set (df_cols no_oat)" by (simp add: no_oat_def)
  from missing_oat [OF a b, of 0 1 True] a b show ?thesis by simp
qed

end
